theory Spec2Isabelle
  imports Main "HOL-Library.Sublist" "HOL-Library.Word"
begin

section \<open>Status codes and the failure object\<close>

text \<open>
  \<^verbatim>\<open>nvcomp.hpp\<close> includes the C header \<^verbatim>\<open>nvcomp.h\<close>, which declares the
  enumeration \<^verbatim>\<open>nvcompError_t\<close>. An enumerator of a C enumeration is an integer
  constant and \<^verbatim>\<open>std::to_string(err)\<close> renders that integer, so a status code is
  modelled by its integer value. The two enumerators \<^verbatim>\<open>nvcomp.hpp\<close> names are
  parameters of the model: the record \<open>nvcomp_h\<close> holds the values the C header
  gives them.
\<close>

type_synonym nvcompError_t = int

text \<open>
  A C \<^verbatim>\<open>int\<close> has 32 bits; no arithmetic is done on a status code, so the model
  uses \<open>int\<close> and every theorem below holds for each of its values.
\<close>

record nvcomp_h =
  nvcompSuccess :: nvcompError_t
  nvcompErrorNotSupported :: nvcompError_t

text \<open>
  A header to evaluate the model on: success is \<open>0\<close> and the unsupported-type code
  is \<open>11\<close>. It is used in the examples only; every theorem holds for every header.
\<close>

definition sample_h :: nvcomp_h where
  "sample_h = \<lparr>nvcompSuccess = 0, nvcompErrorNotSupported = 11\<rparr>"

subsection \<open>\<^verbatim>\<open>std::to_string\<close> on an integer\<close>

text \<open>
  \<^verbatim>\<open>std::to_string(int)\<close> writes what \<^verbatim>\<open>%d\<close> writes: a minus sign for a negative
  value, then the decimal digits, most significant first, with no leading zero.
\<close>

definition digit_char :: "nat \<Rightarrow> char" where
  "digit_char d = ''0123456789'' ! d"

fun digits10 :: "nat \<Rightarrow> string" where
  "digits10 n = (if n < 10 then [digit_char n] else digits10 (n div 10) @ [digit_char (n mod 10)])"

declare digits10.simps [simp del]

definition to_string :: "int \<Rightarrow> string" where
  "to_string i = (if i < 0 then CHR ''-'' # digits10 (nat (- i)) else digits10 (nat i))"

text \<open>
  Reading a rendering back: the value of a digit character, of a digit string, and of
  an optionally signed digit string. They are used to say that \<open>to_string\<close> is the
  decimal rendering, and that the rendering still determines the code.
\<close>

definition digit_val :: "char \<Rightarrow> nat" where
  "digit_val c = of_char c - 48"

definition decimal_val :: "string \<Rightarrow> nat" where
  "decimal_val s = foldl (\<lambda>acc c. 10 * acc + digit_val c) 0 s"

definition from_string :: "string \<Rightarrow> int" where
  "from_string s = (case s of
      [] \<Rightarrow> 0
    | c # cs \<Rightarrow> if c = CHR ''-'' then - int (decimal_val cs) else int (decimal_val s))"

subsection \<open>\<^verbatim>\<open>class NVCompException : public std::runtime_error\<close>\<close>

text \<open>
  The constructor hands \<^verbatim>\<open>msg + " : code=" + std::to_string(err) + "."\<close> to its
  base \<^verbatim>\<open>std::runtime_error\<close> and stores \<^verbatim>\<open>err\<close> in the private member
  \<^verbatim>\<open>m_err\<close>. The base gives the message back through \<^verbatim>\<open>what()\<close> only, a
  \<^verbatim>\<open>const char*\<close>: a C string, which ends at its first NUL byte. A \<^verbatim>\<open>std::string\<close>
  may hold NUL bytes, so what a caller reads is the text up to the first of them,
  \<open>c_str\<close> of the text. The field \<open>what\<close> is what \<^verbatim>\<open>what()\<close> returns.
\<close>

definition NUL :: char where
  "NUL = CHR 0x00"

definition c_str :: "string \<Rightarrow> string" where
  "c_str s = takeWhile (\<lambda>c. c \<noteq> NUL) s"

record NVCompException =
  what :: string
  m_err :: nvcompError_t

definition NVCompException :: "nvcompError_t \<Rightarrow> string \<Rightarrow> NVCompException" where
  "NVCompException err msg =
     \<lparr>what = c_str (msg @ '' : code='' @ to_string err @ ''.''), m_err = err\<rparr>"

text \<open>
  Reading the code back from a message: the text between the last \<^verbatim>\<open>=\<close> and the
  final full stop, as a decimal number. It is used to say that the message carries the
  code itself and not some other text.
\<close>

definition embedded_code :: "string \<Rightarrow> int" where
  "embedded_code m = from_string (rev (takeWhile (\<lambda>c. c \<noteq> CHR ''='') (tl (rev m))))"

definition get_error :: "NVCompException \<Rightarrow> nvcompError_t" where
  "get_error e = m_err e"

subsection \<open>\<^verbatim>\<open>throwExceptionIfError\<close>\<close>

text \<open>
  A \<^verbatim>\<open>throw\<close> is the left injection of a sum: \<open>Inl e\<close> is the raised object, and
  \<open>Inr ()\<close> is the normal return of a \<^verbatim>\<open>void\<close> function.
\<close>

definition throwExceptionIfError :: "nvcomp_h \<Rightarrow> nvcompError_t \<Rightarrow> string \<Rightarrow> NVCompException + unit" where
  "throwExceptionIfError h error msg =
     (if error \<noteq> nvcompSuccess h then Inl (NVCompException error msg) else Inr ())"

section \<open>The type witness \<^verbatim>\<open>getnvcompType<T>\<close>\<close>

text \<open>
  The template parameter ranges over the types of C++. The model lists the arithmetic
  types by their own names and stands for every other type (a class, a pointer, an
  enumeration) by \<open>Cother\<close> and its name.
\<close>

datatype cxx_type =
    Cbool
  | Cchar
  | Csigned_char
  | Cunsigned_char
  | Cshort
  | Cunsigned_short
  | Cint
  | Cunsigned_int
  | Clong
  | Cunsigned_long
  | Clong_long
  | Cunsigned_long_long
  | Cfloat
  | Cdouble
  | Cother string

text \<open>\<^verbatim>\<open>std::is_integral\<close>: the integer types among them.\<close>

fun is_integral :: "cxx_type \<Rightarrow> bool" where
  "is_integral Cfloat = False"
| "is_integral Cdouble = False"
| "is_integral (Cother n) = False"
| "is_integral T = True"

text \<open>
  \<^verbatim>\<open><cstdint>\<close> is a header of the platform, not of the repository: which type each of
  \<^verbatim>\<open>int8_t\<close>, ..., \<^verbatim>\<open>uint64_t\<close> is an alias of, how wide each arithmetic type is and
  whether it is signed are parameters of the model.
\<close>

record platform =
  int8_t :: cxx_type
  uint8_t :: cxx_type
  int16_t :: cxx_type
  uint16_t :: cxx_type
  int32_t :: cxx_type
  uint32_t :: cxx_type
  int64_t :: cxx_type
  uint64_t :: cxx_type
  bits :: "cxx_type \<Rightarrow> nat"
  is_signed :: "cxx_type \<Rightarrow> bool"

definition aliases :: "platform \<Rightarrow> cxx_type list" where
  "aliases p = [int8_t p, uint8_t p, int16_t p, uint16_t p, int32_t p, uint32_t p, int64_t p, uint64_t p]"

text \<open>
  Modelled from the spec: the enumeration \<^verbatim>\<open>nvcompType_t\<close> is declared in
  \<^verbatim>\<open>nvcomp.h\<close>, which is not among the sources. The spec describes the Type Tag as an
  enumerated value identifying one of eight supported fixed-width integer element types;
  the constructors are the eight enumerators \<^verbatim>\<open>getnvcompType\<close> returns.
\<close>

datatype nvcompType_t =
    NVCOMP_TYPE_CHAR
  | NVCOMP_TYPE_UCHAR
  | NVCOMP_TYPE_SHORT
  | NVCOMP_TYPE_USHORT
  | NVCOMP_TYPE_INT
  | NVCOMP_TYPE_UINT
  | NVCOMP_TYPE_LONGLONG
  | NVCOMP_TYPE_ULONGLONG

text \<open>
  \<^verbatim>\<open>std::is_same<T, int8_t>::value\<close> is identity of types after the aliases are
  resolved: equality of \<open>T\<close> with the type the platform makes \<^verbatim>\<open>int8_t\<close>. The chain
  is tried in the order of the source.
\<close>

definition getnvcompType :: "nvcomp_h \<Rightarrow> platform \<Rightarrow> cxx_type \<Rightarrow> NVCompException + nvcompType_t" where
  "getnvcompType h p T =
     (if T = int8_t p then Inr NVCOMP_TYPE_CHAR
      else if T = uint8_t p then Inr NVCOMP_TYPE_UCHAR
      else if T = int16_t p then Inr NVCOMP_TYPE_SHORT
      else if T = uint16_t p then Inr NVCOMP_TYPE_USHORT
      else if T = int32_t p then Inr NVCOMP_TYPE_INT
      else if T = uint32_t p then Inr NVCOMP_TYPE_UINT
      else if T = int64_t p then Inr NVCOMP_TYPE_LONGLONG
      else if T = uint64_t p then Inr NVCOMP_TYPE_ULONGLONG
      else Inl (NVCompException (nvcompErrorNotSupported h) ''nvcomp does not support the given type.''))"

text \<open>
  What the C standard asks of the eight aliases: \<^verbatim>\<open>intN_t\<close> is a signed integer type
  of exactly \<open>N\<close> bits and \<^verbatim>\<open>uintN_t\<close> an unsigned one.
\<close>

definition exact_width :: "platform \<Rightarrow> bool" where
  "exact_width p \<longleftrightarrow>
     map (\<lambda>T. (bits p T, is_signed p T)) (aliases p)
       = [(8, True), (8, False), (16, True), (16, False),
          (32, True), (32, False), (64, True), (64, False)]"

definition type_tags :: "nvcompType_t list" where
  "type_tags = [NVCOMP_TYPE_CHAR, NVCOMP_TYPE_UCHAR, NVCOMP_TYPE_SHORT, NVCOMP_TYPE_USHORT,
                NVCOMP_TYPE_INT, NVCOMP_TYPE_UINT, NVCOMP_TYPE_LONGLONG, NVCOMP_TYPE_ULONGLONG]"


text \<open>
  Two platforms to evaluate the model on. On Linux for x86-64 (the LP64 data model)
  \<^verbatim>\<open>int64_t\<close> is \<^verbatim>\<open>long\<close> and \<^verbatim>\<open>long long\<close> is a different type of the same
  width; on Windows for x64 (LLP64) \<^verbatim>\<open>int64_t\<close> is \<^verbatim>\<open>long long\<close> and \<^verbatim>\<open>long\<close>
  has 32 bits. Plain \<^verbatim>\<open>char\<close> is signed on both and is a type of its own.
\<close>

fun lp64_bits :: "cxx_type \<Rightarrow> nat" where
  "lp64_bits Cbool = 8"
| "lp64_bits Cchar = 8"
| "lp64_bits Csigned_char = 8"
| "lp64_bits Cunsigned_char = 8"
| "lp64_bits Cshort = 16"
| "lp64_bits Cunsigned_short = 16"
| "lp64_bits Cint = 32"
| "lp64_bits Cunsigned_int = 32"
| "lp64_bits Clong = 64"
| "lp64_bits Cunsigned_long = 64"
| "lp64_bits Clong_long = 64"
| "lp64_bits Cunsigned_long_long = 64"
| "lp64_bits Cfloat = 32"
| "lp64_bits Cdouble = 64"
| "lp64_bits (Cother n) = 0"

fun llp64_bits :: "cxx_type \<Rightarrow> nat" where
  "llp64_bits Clong = 32"
| "llp64_bits Cunsigned_long = 32"
| "llp64_bits T = lp64_bits T"

fun signed_type :: "cxx_type \<Rightarrow> bool" where
  "signed_type Cchar = True"
| "signed_type Csigned_char = True"
| "signed_type Cshort = True"
| "signed_type Cint = True"
| "signed_type Clong = True"
| "signed_type Clong_long = True"
| "signed_type Cfloat = True"
| "signed_type Cdouble = True"
| "signed_type T = False"

definition lp64 :: platform where
  "lp64 = \<lparr>int8_t = Csigned_char, uint8_t = Cunsigned_char,
            int16_t = Cshort, uint16_t = Cunsigned_short,
            int32_t = Cint, uint32_t = Cunsigned_int,
            int64_t = Clong, uint64_t = Cunsigned_long,
            bits = lp64_bits, is_signed = signed_type\<rparr>"

definition llp64 :: platform where
  "llp64 = \<lparr>int8_t = Csigned_char, uint8_t = Cunsigned_char,
             int16_t = Cshort, uint16_t = Cunsigned_short,
             int32_t = Cint, uint32_t = Cunsigned_int,
             int64_t = Clong_long, uint64_t = Cunsigned_long_long,
             bits = llp64_bits, is_signed = signed_type\<rparr>"

section \<open>The classes \<^verbatim>\<open>Compressor\<close> and \<^verbatim>\<open>Decompressor\<close>\<close>

text \<open>
  Sizes are \<^verbatim>\<open>size_t\<close>, 64 bits wide on the platforms of the library. A buffer is
  given by an address and a size in the source; the model takes the bytes that stand
  there, and \<open>bytes_of\<close> is the size the caller passes along with the address. A
  stream handle is opaque.
\<close>

type_synonym size_t = "64 word"
type_synonym byte = "8 word"
type_synonym buffer = "byte list"
type_synonym cudaStream_t = nat

definition bytes_of :: "buffer \<Rightarrow> size_t" where
  "bytes_of b = of_nat (length b)"

text \<open>
  Every method of the two classes is pure virtual (\<^verbatim>\<open>= 0\<close>): the header fixes what a
  method receives and what it can write, and gives no body.
  \<^verbatim>\<open>Compressor::compress_async\<close> takes its output size as \<^verbatim>\<open>size_t* out_bytes\<close>, a
  place it reads and writes; \<^verbatim>\<open>Decompressor::decompress_async\<close> takes it as
  \<^verbatim>\<open>const size_t out_bytes\<close>, a copy.
\<close>

subsection \<open>What the methods do\<close>

text \<open>
  Modelled from the spec: the classes that implement \<^verbatim>\<open>Compressor\<close> and
  \<^verbatim>\<open>Decompressor\<close> are not among the sources. The spec gives every instance a state
  machine, \<open>Created \<rightarrow> Configured \<rightarrow> (Configured | Executed)\<close>, and says that the
  sizes \<^verbatim>\<open>configure\<close> returns are valid for the input size they were computed for:
  the phase \<open>Configured\<close> keeps that input size and the two sizes returned. The
  instance holds its algorithm parameters and owns no device memory.
\<close>

datatype phase = Created | Configured size_t size_t size_t | Executed

record 'p object =
  parameters :: 'p
  phase :: phase

text \<open>
  Modelled from the spec: the low-level status-code layer is an external collaborator
  of the spec (section 6); every entry point translates the code it returns into a
  raised failure object when the code is not success. The layer is a parameter: the
  sizing and the launch of the compressor, taking the algorithm parameters, and of the
  decompressor, which reads the metadata at the start of the compressed bytes. Each
  returns a status code first. \<open>invalid_argument\<close> is the status code of the spec's
  kind "invalid argument", which \<^verbatim>\<open>nvcomp.hpp\<close> does not name.
\<close>

record 'p lowlevel =
  invalid_argument :: nvcompError_t
  compress_sizes :: "'p \<Rightarrow> size_t \<Rightarrow> nvcompError_t \<times> size_t \<times> size_t"
  compress_launch :: "'p \<Rightarrow> buffer \<Rightarrow> cudaStream_t \<Rightarrow> nvcompError_t \<times> buffer"
  decompress_sizes :: "buffer \<Rightarrow> cudaStream_t \<Rightarrow> nvcompError_t \<times> size_t \<times> size_t"
  decompress_launch :: "buffer \<Rightarrow> cudaStream_t \<Rightarrow> nvcompError_t \<times> buffer"

text \<open>
  Modelled from the spec: \<^verbatim>\<open>Compressor::configure\<close> has no body in the sources. The
  spec (section 4.3): a pure function of the input size and the instance's algorithm
  parameters, which raises on an invalid input size; afterwards the instance is
  configured. A call that raises leaves the instance as it was.
\<close>

definition Compressor_configure ::
  "nvcomp_h \<Rightarrow> 'p lowlevel \<Rightarrow> 'p object \<Rightarrow> size_t
     \<Rightarrow> (NVCompException + size_t \<times> size_t) \<times> 'p object" where
  "Compressor_configure h ll x in_bytes =
     (case compress_sizes ll (parameters x) in_bytes of (status, t, m) \<Rightarrow>
        (case throwExceptionIfError h status ''Compressor::configure failed'' of
           Inl e \<Rightarrow> (Inl e, x)
         | Inr u \<Rightarrow> (Inr (t, m), x\<lparr>phase := Configured in_bytes t m\<rparr>)))"

text \<open>
  Modelled from the spec: \<^verbatim>\<open>Compressor::compress_async\<close> has no body in the sources.
  The spec (sections 4.3, 4.4, 8): the call is valid from \<open>Configured\<close> only and for the
  input size of that \<^verbatim>\<open>configure\<close>; a workspace smaller than the size
  \<^verbatim>\<open>configure\<close> returned raises "invalid argument"; \<^verbatim>\<open>*out_bytes\<close> on entry is the
  capacity of the output buffer and must be at least the maximal output size; a launch
  the stream rejects raises at the call; on success the output buffer holds the
  compressed bytes and \<^verbatim>\<open>*out_bytes\<close> is overwritten with their size. The result
  is the outcome, the value of \<^verbatim>\<open>*out_bytes\<close> on return, and the instance; a call
  that raises leaves both as they were, so that the caller can try again with a larger
  workspace (section 7). \<open>None\<close> stands where the spec leaves the behaviour open: a
  call outside \<open>Configured\<close>, an input of another size, and a capacity below the
  maximal output size (there "the implementation may fail"). The result describes the
  buffers once the stream has drained.
\<close>

definition Compressor_compress_async ::
  "nvcomp_h \<Rightarrow> 'p lowlevel \<Rightarrow> 'p object \<Rightarrow> buffer \<Rightarrow> size_t \<Rightarrow> size_t \<Rightarrow> cudaStream_t
     \<Rightarrow> ((NVCompException + buffer) \<times> size_t \<times> 'p object) option" where
  "Compressor_compress_async h ll x input temp_bytes out_bytes stream =
     (case phase x of
        Configured n t m \<Rightarrow>
          if bytes_of input \<noteq> n then None
          else if temp_bytes < t then
            Some (Inl (NVCompException (invalid_argument ll) ''temporary workspace too small''),
                  out_bytes, x)
          else if out_bytes < m then None
          else (case compress_launch ll (parameters x) input stream of (status, out) \<Rightarrow>
            (case throwExceptionIfError h status ''Compressor::compress_async failed'' of
               Inl e \<Rightarrow> Some (Inl e, out_bytes, x)
             | Inr u \<Rightarrow> Some (Inr out, bytes_of out, x\<lparr>phase := Executed\<rparr>)))
      | _ \<Rightarrow> None)"

text \<open>
  Modelled from the spec: \<^verbatim>\<open>Decompressor::configure\<close> has no body in the sources. The
  spec (section 4.4): it reads the metadata at the start of the compressed bytes to
  find the two sizes, and raises if the input is too small to hold the metadata or the
  format tag is not recognised.
\<close>

definition Decompressor_configure ::
  "nvcomp_h \<Rightarrow> 'p lowlevel \<Rightarrow> 'p object \<Rightarrow> buffer \<Rightarrow> cudaStream_t
     \<Rightarrow> (NVCompException + size_t \<times> size_t) \<times> 'p object" where
  "Decompressor_configure h ll x input stream =
     (case decompress_sizes ll input stream of (status, t, m) \<Rightarrow>
        (case throwExceptionIfError h status ''Decompressor::configure failed'' of
           Inl e \<Rightarrow> (Inl e, x)
         | Inr u \<Rightarrow> (Inr (t, m), x\<lparr>phase := Configured (bytes_of input) t m\<rparr>)))"

text \<open>
  Modelled from the spec: \<^verbatim>\<open>Decompressor::decompress_async\<close> has no body in the
  sources. The spec (sections 4.4, 8): its preconditions mirror the compressor's; the
  output size must match the size \<^verbatim>\<open>configure\<close> reported (whether a larger one is
  accepted is left to the implementation: \<open>None\<close>); it raises if the metadata does not
  fit the sizes or the stream rejects the launch. The parameter \<^verbatim>\<open>out_bytes\<close> is a
  \<^verbatim>\<open>const size_t\<close>, a copy of the caller's value: the second component of the
  result, the caller's variable after the call, is the value it had before.
\<close>

definition Decompressor_decompress_async ::
  "nvcomp_h \<Rightarrow> 'p lowlevel \<Rightarrow> 'p object \<Rightarrow> buffer \<Rightarrow> size_t \<Rightarrow> size_t \<Rightarrow> cudaStream_t
     \<Rightarrow> ((NVCompException + buffer) \<times> size_t \<times> 'p object) option" where
  "Decompressor_decompress_async h ll x input temp_bytes out_bytes stream =
     (case phase x of
        Configured n t m \<Rightarrow>
          if bytes_of input \<noteq> n then None
          else if temp_bytes < t then
            Some (Inl (NVCompException (invalid_argument ll) ''temporary workspace too small''),
                  out_bytes, x)
          else if out_bytes \<noteq> m then None
          else (case decompress_launch ll input stream of (status, out) \<Rightarrow>
            (case throwExceptionIfError h status ''Decompressor::decompress_async failed'' of
               Inl e \<Rightarrow> Some (Inl e, out_bytes, x)
             | Inr u \<Rightarrow> Some (Inr out, out_bytes, x\<lparr>phase := Executed\<rparr>)))
      | _ \<Rightarrow> None)"

text \<open>
  A low-level layer to evaluate the model on: the compressed bytes are an eight-byte
  header followed by the input; the workspace is 64 bytes; status 10 stands for
  "invalid argument" and for an input too short to hold the header. A new instance is
  in the phase \<open>Created\<close>.
\<close>

definition header_layer :: "unit lowlevel" where
  "header_layer =
     \<lparr>invalid_argument = 10,
      compress_sizes = (\<lambda>p n. (0, 64, n + 8)),
      compress_launch = (\<lambda>p b s. (0, replicate 8 0 @ b)),
      decompress_sizes = (\<lambda>b s. if length b < 8 then (10, 0, 0) else (0, 64, of_nat (length b - 8))),
      decompress_launch = (\<lambda>b s. (0, drop 8 b))\<rparr>"

definition created :: "unit object" where
  "created = \<lparr>parameters = (), phase = Created\<rparr>"

section \<open>The decimal rendering\<close>

lemma digit_cases:
  "d < 10 \<Longrightarrow> d = 0 \<or> d = 1 \<or> d = 2 \<or> d = 3 \<or> d = 4 \<or> d = 5 \<or> d = 6 \<or> d = 7 \<or> d = 8 \<or> d = (9::nat)"
  by arith

lemma digit_val_digit_char: "d < 10 \<Longrightarrow> digit_val (digit_char d) = d"
  using digit_cases [of d] by (auto simp: digit_val_def digit_char_def)

lemma digit_char_not_minus: "d < 10 \<Longrightarrow> digit_char d \<noteq> CHR ''-''"
  using digit_cases [of d] by (auto simp: digit_char_def)

lemma decimal_val_snoc: "decimal_val (s @ [c]) = 10 * decimal_val s + digit_val c"
  by (simp add: decimal_val_def)

text \<open>The digits of \<open>n\<close> have the value \<open>n\<close>: by the recursion of \<open>digits10\<close>.\<close>

lemma decimal_val_digits10: "decimal_val (digits10 n) = n"
proof (induction n rule: digits10.induct)
  case (1 n)
  show ?case
  proof (cases "n < 10")
    case True
    then show ?thesis
      by (simp add: digits10.simps [of n] decimal_val_def digit_val_digit_char)
  next
    case False
    with "1" have "decimal_val (digits10 (n div 10)) = n div 10"
      by simp
    with False show ?thesis
      by (simp add: digits10.simps [of n] decimal_val_snoc digit_val_digit_char)
  qed
qed

lemma digits10_starts_with_digit: "\<exists>d cs. d < 10 \<and> digits10 n = digit_char d # cs"
proof (induction n rule: digits10.induct)
  case (1 n)
  show ?case
  proof (cases "n < 10")
    case True
    then show ?thesis
      by (auto simp: digits10.simps [of n])
  next
    case False
    with "1" obtain d cs where "d < 10" and "digits10 (n div 10) = digit_char d # cs"
      by auto
    with False show ?thesis
      by (auto simp: digits10.simps [of n])
  qed
qed

lemma from_string_to_string: "from_string (to_string i) = i"
proof (cases "i < 0")
  case True
  then show ?thesis
    by (simp add: from_string_def to_string_def decimal_val_digits10)
next
  case False
  obtain d cs where d: "d < 10" "digits10 (nat i) = digit_char d # cs"
    using digits10_starts_with_digit by blast
  have "decimal_val (digit_char d # cs) = nat i"
    using decimal_val_digits10 [of "nat i"] d by simp
  with False d show ?thesis
    by (simp add: from_string_def to_string_def digit_char_not_minus)
qed

lemma to_string_inject: "to_string i = to_string j \<longleftrightarrow> i = j"
  by (metis from_string_to_string)

lemma to_string_11: "to_string 11 = ''11''"
  by (simp add: to_string_def digits10.simps digit_char_def)

lemma to_string_10: "to_string 10 = ''10''"
  by (simp add: to_string_def digits10.simps digit_char_def)

lemma to_string_0: "to_string 0 = ''0''"
  by (simp add: to_string_def digits10.simps digit_char_def)

lemma to_string_minus_7: "to_string (- 7) = ''-7''"
  by (simp add: to_string_def digits10.simps digit_char_def)

section \<open>The failure object\<close>

lemma get_error_NVCompException: "get_error (NVCompException err msg) = err"
  by (simp add: get_error_def NVCompException_def)

lemma what_NVCompException:
  "what (NVCompException err msg) = c_str (msg @ '' : code='' @ to_string err @ ''.'')"
  by (simp add: NVCompException_def)

text \<open>A rendering is made of digits and a minus sign: it holds no NUL and no \<^verbatim>\<open>=\<close>.\<close>

lemma digits10_chars: "c \<in> set (digits10 n) \<Longrightarrow> \<exists>d<10. c = digit_char d"
proof (induction n rule: digits10.induct)
  case (1 n)
  show ?case
  proof (cases "n < 10")
    case True
    with "1.prems" show ?thesis
      by (auto simp: digits10.simps [of n])
  next
    case False
    with "1.prems" have "c \<in> set (digits10 (n div 10)) \<or> c = digit_char (n mod 10)"
      by (auto simp: digits10.simps [of n])
    then show ?thesis
    proof
      assume "c \<in> set (digits10 (n div 10))"
      with False "1.IH" show ?thesis
        by simp
    next
      assume "c = digit_char (n mod 10)"
      moreover have "n mod 10 < 10"
        by simp
      ultimately show ?thesis
        by blast
    qed
  qed
qed

lemma digit_char_not_NUL: "d < 10 \<Longrightarrow> digit_char d \<noteq> NUL"
  using digit_cases [of d] by (auto simp: digit_char_def NUL_def)

lemma digit_char_not_equals: "d < 10 \<Longrightarrow> digit_char d \<noteq> CHR ''=''"
  using digit_cases [of d] by (auto simp: digit_char_def)

lemma to_string_chars:
  assumes "c \<in> set (to_string i)"
  shows "c = CHR ''-'' \<or> (\<exists>d<10. c = digit_char d)"
proof (cases "i < 0")
  case True
  with assms have "c = CHR ''-'' \<or> c \<in> set (digits10 (nat (- i)))"
    by (simp add: to_string_def)
  then show ?thesis
    using digits10_chars by blast
next
  case False
  with assms have "c \<in> set (digits10 (nat i))"
    by (simp add: to_string_def)
  then show ?thesis
    using digits10_chars by blast
qed

lemma NUL_notin_to_string: "NUL \<notin> set (to_string i)"
proof
  assume "NUL \<in> set (to_string i)"
  then have "NUL = CHR ''-'' \<or> (\<exists>d<10. NUL = digit_char d)"
    by (rule to_string_chars)
  moreover have "NUL \<noteq> CHR ''-''"
    by (simp add: NUL_def)
  ultimately show False
    using digit_char_not_NUL by metis
qed

lemma equals_notin_to_string: "CHR ''='' \<notin> set (to_string i)"
proof
  assume "CHR ''='' \<in> set (to_string i)"
  then have "CHR ''='' = CHR ''-'' \<or> (\<exists>d<10. CHR ''='' = digit_char d)"
    by (rule to_string_chars)
  moreover have "CHR ''='' \<noteq> CHR ''-''"
    by simp
  ultimately show False
    using digit_char_not_equals by metis
qed

lemma c_str_id: "NUL \<notin> set s \<Longrightarrow> c_str s = s"
  by (auto simp: c_str_def)

text \<open>Without a NUL in \<open>msg\<close> the caller reads the whole text.\<close>

lemma what_without_NUL:
  assumes "NUL \<notin> set msg"
  shows "what (NVCompException err msg) = msg @ '' : code='' @ to_string err @ ''.''"
proof -
  have "NUL \<notin> set (msg @ '' : code='' @ to_string err @ ''.'')"
    using assms NUL_notin_to_string [of err] by (simp add: NUL_def)
  then show ?thesis
    by (simp add: what_NVCompException c_str_id)
qed

text \<open>The number at the end of that text is \<open>err\<close>.\<close>

lemma embedded_code_text: "embedded_code (msg @ '' : code='' @ to_string err @ ''.'') = err"
proof -
  let ?r = "to_string err"
  let ?P = "\<lambda>c. c \<noteq> CHR ''=''"
  let ?rest = "rev (msg @ '' : code'')"
  have a: "tl (rev (msg @ '' : code='' @ ?r @ ''.'')) = rev ?r @ CHR ''='' # ?rest"
    by simp
  have "takeWhile ?P (rev ?r @ CHR ''='' # ?rest) = rev ?r @ takeWhile ?P (CHR ''='' # ?rest)"
  proof (rule takeWhile_append2)
    fix c
    assume "c \<in> set (rev ?r)"
    then show "c \<noteq> CHR ''=''"
      using equals_notin_to_string [of err] by auto
  qed
  then have b: "takeWhile ?P (rev ?r @ CHR ''='' # ?rest) = rev ?r"
    by simp
  show ?thesis
    unfolding embedded_code_def a b by (simp add: from_string_to_string)
qed

lemma embedded_code_what:
  "NUL \<notin> set msg \<Longrightarrow> embedded_code (what (NVCompException err msg)) = err"
  using embedded_code_text [of msg err] by (simp add: what_without_NUL)

lemma what_embeds_code:
  assumes "NUL \<notin> set msg"
  shows "sublist (to_string err) (what (NVCompException err msg))"
proof -
  have "sublist (to_string err) ((msg @ '' : code='') @ to_string err @ ''.'')"
    by (rule sublist_appendI)
  then show ?thesis
    using assms by (simp add: what_without_NUL)
qed

lemma throwExceptionIfError_Inl:
  "throwExceptionIfError h err msg = Inl e \<longleftrightarrow> err \<noteq> nvcompSuccess h \<and> e = NVCompException err msg"
  by (auto simp: throwExceptionIfError_def)

lemma throwExceptionIfError_Inr:
  "throwExceptionIfError h err msg = Inr u \<longleftrightarrow> err = nvcompSuccess h"
  by (simp add: throwExceptionIfError_def)

lemma to_string_10000: "to_string 10000 = ''10000''"
  by (simp add: to_string_def digits10.simps digit_char_def)

lemma what_cut_at_NUL: "what (NVCompException err (CHR ''a'' # NUL # cs)) = ''a''"
  by (simp add: what_NVCompException c_str_def NUL_def)

lemma not_sublist_11_a: "\<not> sublist ''11'' ''a''"
proof
  assume "sublist ''11'' ''a''"
  then have "length ''11'' \<le> length ''a''"
    by (rule sublist_length_le)
  then show False
    by simp
qed

lemma unsupported_text_no_NUL: "NUL \<notin> set ''nvcomp does not support the given type.''"
  by (simp add: NUL_def)

text \<open>
  C3, as the spec states it: the message of the failure object embeds the status code,
  for every message \<open>msg\<close>. It does not for a \<open>msg\<close> that holds a NUL byte: the caller
  reads \<^verbatim>\<open>what()\<close> up to that byte, and the code comes after it.
\<close>

theorem message_with_NUL_loses_code:
  "what (NVCompException 11 [CHR ''a'', NUL, CHR ''b'']) = ''a''
   \<and> to_string 11 = ''11''
   \<and> \<not> sublist (to_string 11) (what (NVCompException 11 [CHR ''a'', NUL, CHR ''b'']))
   \<and> get_error (NVCompException 11 [CHR ''a'', NUL, CHR ''b'']) = 11"
  by (simp add: what_cut_at_NUL to_string_11 get_error_NVCompException not_sublist_11_a)

text \<open>
  C3, amended: for every status code \<open>err\<close> and every message \<open>msg\<close>, \<open>get_error\<close>
  gives \<open>err\<close> back, and the object a caller catches from \<open>throwExceptionIfError\<close>
  or from \<open>getnvcompType\<close> still answers the code it was raised with. For every
  \<open>msg\<close> without a NUL byte the message contains the decimal rendering of \<open>err\<close>, and
  the number written between the last \<^verbatim>\<open>=\<close> and the final full stop is \<open>err\<close>.
\<close>

theorem NVCompException_keeps_code:
  "get_error (NVCompException err msg) = err
   \<and> (NUL \<notin> set msg \<longrightarrow>
        sublist (to_string err) (what (NVCompException err msg))
        \<and> embedded_code (what (NVCompException err msg)) = err)
   \<and> (\<forall>e. throwExceptionIfError h err msg = Inl e \<longrightarrow>
          get_error e = err \<and> (NUL \<notin> set msg \<longrightarrow> embedded_code (what e) = err))
   \<and> (\<forall>e. getnvcompType h p T = Inl e \<longrightarrow>
          get_error e = nvcompErrorNotSupported h
          \<and> embedded_code (what e) = nvcompErrorNotSupported h)"
proof -
  have "\<forall>e. getnvcompType h p T = Inl e \<longrightarrow>
          get_error e = nvcompErrorNotSupported h
          \<and> embedded_code (what e) = nvcompErrorNotSupported h"
    using embedded_code_what [OF unsupported_text_no_NUL, of "nvcompErrorNotSupported h"]
    by (auto simp: getnvcompType_def get_error_NVCompException split: if_splits)
  then show ?thesis
    by (simp add: get_error_NVCompException what_embeds_code embedded_code_what
        throwExceptionIfError_Inl)
qed

theorem NVCompException_keeps_code_example:
  "NUL \<notin> set ''launch failed''
   \<and> get_error (NVCompException 10000 ''launch failed'') = 10000
   \<and> what (NVCompException 10000 ''launch failed'') = ''launch failed : code=10000.''
   \<and> sublist ''10000'' ''launch failed : code=10000.''
   \<and> embedded_code ''launch failed : code=10000.'' = 10000
   \<and> throwExceptionIfError sample_h 10000 ''launch failed''
       = Inl \<lparr>what = ''launch failed : code=10000.'', m_err = 10000\<rparr>
   \<and> embedded_code (what (NVCompException (- 7) ''launch failed'')) = - 7"
proof -
  have n: "NUL \<notin> set ''launch failed''"
    by (simp add: NUL_def)
  have w: "what (NVCompException 10000 ''launch failed'') = ''launch failed : code=10000.''"
    using what_without_NUL [OF n, of 10000] by (simp add: to_string_10000)
  have t: "throwExceptionIfError sample_h 10000 ''launch failed''
             = Inl \<lparr>what = ''launch failed : code=10000.'', m_err = 10000\<rparr>"
    using w by (simp add: throwExceptionIfError_def sample_h_def NVCompException_def)
  from NVCompException_keeps_code [of 10000 "''launch failed''" sample_h lp64 Cdouble]
    NVCompException_keeps_code [of "- 7" "''launch failed''" sample_h lp64 Cdouble] n w t
  show ?thesis
    by (simp add: to_string_10000)
qed

text \<open>
  C10, as the spec states it: the stored message is exactly \<open>msg\<close>, the text
  \<^verbatim>\<open> : code=\<close>, the rendering and a full stop, with \<open>msg\<close> kept as a prefix, for every
  \<open>msg\<close>. For a \<open>msg\<close> that holds a NUL byte the message a caller reads is neither.
\<close>

theorem message_with_NUL_is_cut:
  "what (NVCompException 11 [CHR ''a'', NUL, CHR ''b''])
     \<noteq> [CHR ''a'', NUL, CHR ''b''] @ '' : code='' @ to_string 11 @ ''.''
   \<and> \<not> prefix [CHR ''a'', NUL, CHR ''b''] (what (NVCompException 11 [CHR ''a'', NUL, CHR ''b'']))"
  by (simp add: what_cut_at_NUL)

text \<open>
  C10, amended: for every \<open>msg\<close> without a NUL byte the message is exactly \<open>msg\<close>, then
  \<^verbatim>\<open> : code=\<close>, then the decimal rendering of \<open>err\<close>, then a full stop, so \<open>msg\<close> is a
  prefix of it. For every \<open>msg\<close> the message is that text up to its first NUL byte;
  the rendering reads back as \<open>err\<close>; and \<open>get_error\<close> answers the stored code, the
  same for every message the object was built with.
\<close>

theorem NVCompException_message_format:
  "(NUL \<notin> set msg \<longrightarrow>
      what (NVCompException err msg) = msg @ '' : code='' @ to_string err @ ''.''
      \<and> prefix msg (what (NVCompException err msg)))
   \<and> what (NVCompException err msg) = c_str (msg @ '' : code='' @ to_string err @ ''.'')
   \<and> from_string (to_string err) = err
   \<and> get_error (NVCompException err msg) = m_err (NVCompException err msg)
   \<and> get_error (NVCompException err msg) = err
   \<and> get_error (NVCompException err msg') = get_error (NVCompException err msg)"
proof -
  have "what (NVCompException err msg) = msg @ '' : code='' @ to_string err @ ''.''
        \<and> prefix msg (what (NVCompException err msg))" if "NUL \<notin> set msg"
    using what_without_NUL [OF that, of err] by simp
  moreover have "get_error (NVCompException err msg) = m_err (NVCompException err msg)"
    by (simp add: get_error_def)
  ultimately show ?thesis
    using what_NVCompException [of err msg] from_string_to_string [of err]
    by (simp add: get_error_NVCompException)
qed

theorem NVCompException_message_format_example:
  "NUL \<notin> set ''nvcomp does not support the given type.''
   \<and> what (NVCompException 11 ''nvcomp does not support the given type.'')
     = ''nvcomp does not support the given type. : code=11.''
   \<and> NUL \<notin> set ''odd''
   \<and> what (NVCompException (- 7) ''odd'') = ''odd : code=-7.''
   \<and> from_string ''-7'' = - 7
   \<and> get_error (NVCompException (- 7) ''odd'') = - 7"
proof -
  have n: "NUL \<notin> set ''nvcomp does not support the given type.''" "NUL \<notin> set ''odd''"
    by (simp_all add: NUL_def)
  from NVCompException_message_format [of "''nvcomp does not support the given type.''" 11 "''odd''"]
    NVCompException_message_format [of "''odd''" "- 7" "''odd''"] n
  show ?thesis
    by (simp add: to_string_11 to_string_minus_7)
qed

text \<open>
  C4: \<open>throwExceptionIfError err msg\<close> raises if and only if \<open>err\<close> is not the success
  code; the object it raises is the failure object of \<open>err\<close> and \<open>msg\<close>, whose code is
  \<open>err\<close>; on the success code it returns normally, and a \<^verbatim>\<open>void\<close> return carries
  nothing.
\<close>

theorem throwExceptionIfError_raises_iff:
  "(isl (throwExceptionIfError h err msg) \<longleftrightarrow> err \<noteq> nvcompSuccess h)
   \<and> (\<forall>e. throwExceptionIfError h err msg = Inl e \<longrightarrow>
          e = NVCompException err msg \<and> get_error e = err)
   \<and> (err = nvcompSuccess h \<longrightarrow> throwExceptionIfError h err msg = Inr ())"
  by (auto simp: throwExceptionIfError_def get_error_NVCompException)

theorem throwExceptionIfError_raises_iff_example:
  "throwExceptionIfError sample_h 10 ''configure failed''
     = Inl \<lparr>what = ''configure failed : code=10.'', m_err = 10\<rparr>
   \<and> get_error \<lparr>what = ''configure failed : code=10.'', m_err = 10\<rparr> = 10
   \<and> throwExceptionIfError sample_h 0 ''configure failed'' = Inr ()"
proof -
  have s: "nvcompSuccess sample_h = 0"
    by (simp add: sample_h_def)
  have n: "NVCompException 10 ''configure failed''
             = \<lparr>what = ''configure failed : code=10.'', m_err = 10\<rparr>"
    by (simp add: NVCompException_def to_string_10 c_str_def NUL_def)
  from throwExceptionIfError_raises_iff [of sample_h 10 "''configure failed''"]
    throwExceptionIfError_raises_iff [of sample_h 0 "''configure failed''"] s n
  show ?thesis
    by (cases "throwExceptionIfError sample_h 10 ''configure failed''") (simp_all add: get_error_def)
qed

section \<open>The type witness\<close>

lemma getnvcompType_aliases:
  assumes "distinct (aliases p)"
  shows "map (getnvcompType h p) (aliases p) = map Inr type_tags"
  using assms by (auto simp add: aliases_def type_tags_def getnvcompType_def)

lemma getnvcompType_raises:
  assumes "T \<notin> set (aliases p)"
  shows "getnvcompType h p T =
           Inl (NVCompException (nvcompErrorNotSupported h) ''nvcomp does not support the given type.'')"
  using assms by (simp add: aliases_def getnvcompType_def)

lemma getnvcompType_returns:
  assumes "T \<in> set (aliases p)"
  shows "\<exists>tag. getnvcompType h p T = Inr tag"
  using assms by (auto simp add: aliases_def getnvcompType_def)

lemma distinct_type_tags: "distinct type_tags"
  by (simp add: type_tags_def)

text \<open>
  Aliases of the widths and signedness their names say are eight different types: two
  of them differ in width or in signedness.
\<close>

lemma exact_width_distinct:
  assumes "exact_width p"
  shows "distinct (aliases p)"
proof -
  have "distinct (map (\<lambda>T. (bits p T, is_signed p T)) (aliases p))"
    using assms by (simp add: exact_width_def)
  then show ?thesis
    by (simp add: distinct_map)
qed

lemma exact_width_lp64: "exact_width lp64"
  by (simp add: exact_width_def aliases_def lp64_def)

lemma exact_width_llp64: "exact_width llp64"
  by (simp add: exact_width_def aliases_def llp64_def)

lemma aliases_lp64:
  "aliases lp64 = [Csigned_char, Cunsigned_char, Cshort, Cunsigned_short, Cint, Cunsigned_int,
                   Clong, Cunsigned_long]"
  by (simp add: lp64_def aliases_def)

lemma aliases_llp64:
  "aliases llp64 = [Csigned_char, Cunsigned_char, Cshort, Cunsigned_short, Cint, Cunsigned_int,
                    Clong_long, Cunsigned_long_long]"
  by (simp add: llp64_def aliases_def)

lemma unsupported_sample:
  "NVCompException (nvcompErrorNotSupported sample_h) ''nvcomp does not support the given type.''
     = \<lparr>what = ''nvcomp does not support the given type. : code=11.'', m_err = 11\<rparr>"
  by (simp add: NVCompException_def sample_h_def to_string_11 c_str_def NUL_def)

text \<open>
  C2: on a platform whose eight fixed-width aliases are eight different types (every
  platform with aliases of exact width, by \<open>exact_width_distinct\<close>),
  \<open>getnvcompType\<close> returns a type tag for each of them, in the order of the source;
  the eight tags are pairwise distinct, so the eight types and the eight tags are in
  bijection; and for every other type it raises a failure object whose status code is
  the unsupported-type code. The function has a result and nothing else.
\<close>

theorem getnvcompType_supported_types:
  assumes "distinct (aliases p)"
  shows "map (getnvcompType h p) (aliases p) = map Inr type_tags
       \<and> distinct type_tags
       \<and> bij_betw (getnvcompType h p) (set (aliases p)) (Inr ` set type_tags)
       \<and> (\<forall>T. T \<notin> set (aliases p) \<longrightarrow>
            (\<exists>e. getnvcompType h p T = Inl e \<and> get_error e = nvcompErrorNotSupported h))"
proof -
  let ?f = "getnvcompType h p"
  have m: "map ?f (aliases p) = map Inr type_tags"
    by (rule getnvcompType_aliases [OF assms])
  have "distinct (map ?f (aliases p))"
    by (simp add: m distinct_map distinct_type_tags)
  then have inj: "inj_on ?f (set (aliases p))"
    by (simp add: distinct_map)
  have img: "?f ` set (aliases p) = Inr ` set type_tags"
    using m by (metis list.set_map)
  have r: "\<forall>T. T \<notin> set (aliases p) \<longrightarrow>
             (\<exists>e. ?f T = Inl e \<and> get_error e = nvcompErrorNotSupported h)"
    by (simp add: getnvcompType_raises get_error_NVCompException)
  from m inj img r show ?thesis
    by (simp add: bij_betw_def distinct_type_tags)
qed

theorem getnvcompType_supported_types_lp64:
  "distinct (aliases lp64)
   \<and> map (getnvcompType sample_h lp64)
        [Csigned_char, Cunsigned_char, Cshort, Cunsigned_short, Cint, Cunsigned_int,
         Clong, Cunsigned_long]
       = [Inr NVCOMP_TYPE_CHAR, Inr NVCOMP_TYPE_UCHAR, Inr NVCOMP_TYPE_SHORT,
          Inr NVCOMP_TYPE_USHORT, Inr NVCOMP_TYPE_INT, Inr NVCOMP_TYPE_UINT,
          Inr NVCOMP_TYPE_LONGLONG, Inr NVCOMP_TYPE_ULONGLONG]
   \<and> bij_betw (getnvcompType sample_h lp64) (set (aliases lp64)) (Inr ` set type_tags)
   \<and> Cdouble \<notin> set (aliases lp64)
   \<and> (\<exists>e. getnvcompType sample_h lp64 Cdouble = Inl e \<and> get_error e = 11)"
proof -
  have d: "distinct (aliases lp64)"
    by (simp add: aliases_lp64)
  have n: "Cdouble \<notin> set (aliases lp64)"
    by (simp add: aliases_lp64)
  have s: "nvcompErrorNotSupported sample_h = 11"
    by (simp add: sample_h_def)
  note t = getnvcompType_supported_types [OF d, of sample_h]
  from t n have "\<exists>e. getnvcompType sample_h lp64 Cdouble = Inl e
                    \<and> get_error e = nvcompErrorNotSupported sample_h"
    by blast
  with t d n s show ?thesis
    by (simp add: aliases_lp64 type_tags_def)
qed

text \<open>
  C9: the tag is chosen by identity with the eight aliases and by nothing else:
  \<open>getnvcompType\<close> returns a tag exactly for the types that are one of the aliases
  of the platform, and an integer type of 8, 16, 32 or 64 bits that is none of them
  raises the unsupported-type failure object.
\<close>

theorem getnvcompType_exact_identity:
  "((\<exists>tag. getnvcompType h p T = Inr tag) \<longleftrightarrow> T \<in> set (aliases p))
   \<and> (is_integral T \<and> bits p T \<in> {8, 16, 32, 64} \<and> T \<notin> set (aliases p) \<longrightarrow>
        getnvcompType h p T =
          Inl (NVCompException (nvcompErrorNotSupported h) ''nvcomp does not support the given type.''))"
proof -
  have "T \<in> set (aliases p) \<Longrightarrow> \<exists>tag. getnvcompType h p T = Inr tag"
    by (rule getnvcompType_returns)
  moreover have "T \<notin> set (aliases p) \<Longrightarrow> \<not> (\<exists>tag. getnvcompType h p T = Inr tag)"
    by (simp add: getnvcompType_raises)
  ultimately show ?thesis
    using getnvcompType_raises by blast
qed

text \<open>
  On Linux \<^verbatim>\<open>long long\<close> has the width and the signedness of \<^verbatim>\<open>int64_t\<close> and is
  refused, as are plain \<^verbatim>\<open>char\<close> and \<^verbatim>\<open>bool\<close>; on Windows it is \<^verbatim>\<open>long\<close>, as wide
  as \<^verbatim>\<open>int32_t\<close>, that is refused.
\<close>

theorem getnvcompType_exact_identity_example:
  "is_integral Clong_long
   \<and> bits lp64 Clong_long = 64 \<and> bits lp64 (int64_t lp64) = 64
   \<and> is_signed lp64 Clong_long = is_signed lp64 (int64_t lp64)
   \<and> getnvcompType sample_h lp64 (int64_t lp64) = Inr NVCOMP_TYPE_LONGLONG
   \<and> getnvcompType sample_h lp64 Clong_long
       = Inl \<lparr>what = ''nvcomp does not support the given type. : code=11.'', m_err = 11\<rparr>
   \<and> getnvcompType sample_h lp64 Cchar
       = Inl \<lparr>what = ''nvcomp does not support the given type. : code=11.'', m_err = 11\<rparr>
   \<and> getnvcompType sample_h lp64 Cbool
       = Inl \<lparr>what = ''nvcomp does not support the given type. : code=11.'', m_err = 11\<rparr>
   \<and> bits llp64 Clong = 32 \<and> bits llp64 (int32_t llp64) = 32
   \<and> getnvcompType sample_h llp64 Clong
       = Inl \<lparr>what = ''nvcomp does not support the given type. : code=11.'', m_err = 11\<rparr>
   \<and> getnvcompType sample_h llp64 Clong_long = Inr NVCOMP_TYPE_LONGLONG"
proof -
  have b: "bits lp64 Clong_long = 64" "bits lp64 Cchar = 8" "bits lp64 Cbool = 8"
    "bits lp64 (int64_t lp64) = 64" "bits llp64 Clong = 32" "bits llp64 (int32_t llp64) = 32"
    "is_signed lp64 Clong_long = is_signed lp64 (int64_t lp64)"
    by (simp_all add: lp64_def llp64_def)
  have r: "getnvcompType sample_h lp64 (int64_t lp64) = Inr NVCOMP_TYPE_LONGLONG"
    "getnvcompType sample_h llp64 Clong_long = Inr NVCOMP_TYPE_LONGLONG"
    by (simp_all add: getnvcompType_def lp64_def llp64_def)
  from getnvcompType_exact_identity [of sample_h lp64 Clong_long]
    getnvcompType_exact_identity [of sample_h lp64 Cchar]
    getnvcompType_exact_identity [of sample_h lp64 Cbool]
    getnvcompType_exact_identity [of sample_h llp64 Clong]
    b r
  show ?thesis
    by (simp add: aliases_lp64 aliases_llp64 unsupported_sample)
qed

section \<open>The two-phase protocol\<close>

lemma bytes_of_3 [simp]: "bytes_of [a, b, c] = 3"
  by (simp add: bytes_of_def)

lemma Compressor_configure_Inr:
  assumes "Compressor_configure h ll x n = (Inr (t, m), x')"
  shows "x' = x\<lparr>phase := Configured n t m\<rparr>"
  using assms by (auto simp: Compressor_configure_def split: prod.splits sum.splits)

lemma Decompressor_configure_Inr:
  assumes "Decompressor_configure h ll x input stream = (Inr (t, m), x')"
  shows "x' = x\<lparr>phase := Configured (bytes_of input) t m\<rparr>"
  using assms by (auto simp: Decompressor_configure_def split: prod.splits sum.splits)

lemma header_layer_configure:
  "Compressor_configure sample_h header_layer x 3
     = (Inr (64, 11), x\<lparr>phase := Configured 3 64 11\<rparr>)"
  by (simp add: Compressor_configure_def header_layer_def sample_h_def throwExceptionIfError_def)

lemma header_layer_decompress_configure:
  "Decompressor_configure sample_h header_layer x [0, 0, 0, 0, 0, 0, 0, 0, 1, 2, 3] 0
     = (Inr (64, 3), x\<lparr>phase := Configured 11 64 3\<rparr>)"
  by (simp add: Decompressor_configure_def header_layer_def sample_h_def throwExceptionIfError_def
      bytes_of_def)

text \<open>
  C7: when \<open>configure\<close> has returned the workspace size \<open>t\<close> for an input, a call of
  \<open>compress_async\<close> on that input with a workspace strictly smaller than \<open>t\<close> raises
  a failure object with the invalid-argument code, whatever the capacity and the
  stream; the same holds for \<open>decompress_async\<close> after the decompressor's
  \<open>configure\<close>. The instance may have any history before that \<open>configure\<close>: the
  size that counts is the one of the most recent call.
\<close>

theorem undersized_workspace_raises:
  "(Compressor_configure h ll x (bytes_of input) = (Inr (t, m), x') \<and> temp_bytes < t \<longrightarrow>
      (\<exists>e v z. Compressor_compress_async h ll x' input temp_bytes out_bytes stream
              = Some (Inl e, v, z)
          \<and> get_error e = invalid_argument ll))
   \<and> (Decompressor_configure h ll y zipped s = (Inr (t', m'), y') \<and> temp_bytes' < t' \<longrightarrow>
      (\<exists>e v z. Decompressor_decompress_async h ll y' zipped temp_bytes' out_bytes' s'
              = Some (Inl e, v, z)
          \<and> get_error e = invalid_argument ll))"
proof -
  have "\<exists>e v z. Compressor_compress_async h ll x' input temp_bytes out_bytes stream
               = Some (Inl e, v, z)
           \<and> get_error e = invalid_argument ll"
    if c: "Compressor_configure h ll x (bytes_of input) = (Inr (t, m), x')" and l: "temp_bytes < t"
  proof -
    have "phase x' = Configured (bytes_of input) t m"
      using Compressor_configure_Inr [OF c] by simp
    with l show ?thesis
      by (simp add: Compressor_compress_async_def get_error_NVCompException)
  qed
  moreover have "\<exists>e v z. Decompressor_decompress_async h ll y' zipped temp_bytes' out_bytes' s'
               = Some (Inl e, v, z)
           \<and> get_error e = invalid_argument ll"
    if c: "Decompressor_configure h ll y zipped s = (Inr (t', m'), y')" and l: "temp_bytes' < t'"
  proof -
    have "phase y' = Configured (bytes_of zipped) t' m'"
      using Decompressor_configure_Inr [OF c] by simp
    with l show ?thesis
      by (simp add: Decompressor_decompress_async_def get_error_NVCompException)
  qed
  ultimately show ?thesis
    by blast
qed

theorem undersized_workspace_raises_example:
  "Compressor_configure sample_h header_layer created (bytes_of [1, 2, 3])
     = (Inr (64, 11), \<lparr>parameters = (), phase = Configured 3 64 11\<rparr>)
   \<and> (63 :: size_t) < 64
   \<and> (\<exists>e v z. Compressor_compress_async sample_h header_layer
             \<lparr>parameters = (), phase = Configured 3 64 11\<rparr> [1, 2, 3] 63 11 0
             = Some (Inl e, v, z)
         \<and> get_error e = 10)
   \<and> Decompressor_configure sample_h header_layer created [0, 0, 0, 0, 0, 0, 0, 0, 1, 2, 3] 0
     = (Inr (64, 3), \<lparr>parameters = (), phase = Configured 11 64 3\<rparr>)
   \<and> (\<exists>e v z. Decompressor_decompress_async sample_h header_layer
             \<lparr>parameters = (), phase = Configured 11 64 3\<rparr>
             [0, 0, 0, 0, 0, 0, 0, 0, 1, 2, 3] 63 3 0
             = Some (Inl e, v, z)
         \<and> get_error e = 10)"
proof -
  let ?zipped = "[0, 0, 0, 0, 0, 0, 0, 0, 1, 2, 3] :: buffer"
  have c: "Compressor_configure sample_h header_layer created (bytes_of [1, 2, 3])
             = (Inr (64, 11), \<lparr>parameters = (), phase = Configured 3 64 11\<rparr>)"
    by (simp add: header_layer_configure created_def)
  have d: "Decompressor_configure sample_h header_layer created ?zipped 0
             = (Inr (64, 3), \<lparr>parameters = (), phase = Configured 11 64 3\<rparr>)"
    by (simp add: header_layer_decompress_configure created_def)
  have l: "(63 :: size_t) < 64"
    by simp
  have i: "invalid_argument header_layer = 10"
    by (simp add: header_layer_def)
  from undersized_workspace_raises [of sample_h header_layer created "[1, 2, 3]" 64 11
      "\<lparr>parameters = (), phase = Configured 3 64 11\<rparr>" 63 11 0
      created ?zipped 0 64 3 "\<lparr>parameters = (), phase = Configured 11 64 3\<rparr>" 63 3 0]
    c d l i
  show ?thesis
    by simp
qed

text \<open>
  C6: the output size of \<open>compress_async\<close> is an in-out parameter: a call succeeds
  only from a configured instance whose maximal output size the entry value, the
  capacity, reaches, and on success the value on return is the size of the compressed
  bytes. The output size of \<open>decompress_async\<close> is an input: whatever the call does,
  the caller's value after it is the value before it.
\<close>

theorem out_bytes_in_out:
  "(Compressor_compress_async h ll x input temp_bytes out_bytes stream = Some (Inr out, out_bytes', x')
      \<longrightarrow> out_bytes' = bytes_of out
          \<and> (\<exists>n t m. phase x = Configured n t m \<and> m \<le> out_bytes))
   \<and> (Decompressor_decompress_async h ll y zipped temp_bytes' wanted stream' = Some (r, wanted', y')
      \<longrightarrow> wanted' = wanted)"
  by (auto simp: Compressor_compress_async_def Decompressor_decompress_async_def
      split: phase.splits if_splits prod.splits sum.splits)

theorem out_bytes_in_out_example:
  "Compressor_compress_async sample_h header_layer
       \<lparr>parameters = (), phase = Configured 3 64 11\<rparr> [1, 2, 3] 64 100 0
     = Some (Inr [0, 0, 0, 0, 0, 0, 0, 0, 1, 2, 3], 11, \<lparr>parameters = (), phase = Executed\<rparr>)
   \<and> bytes_of [0, 0, 0, 0, 0, 0, 0, 0, 1, 2, 3] = 11
   \<and> Decompressor_decompress_async sample_h header_layer
       \<lparr>parameters = (), phase = Configured 11 64 3\<rparr> [0, 0, 0, 0, 0, 0, 0, 0, 1, 2, 3] 64 3 0
     = Some (Inr [1, 2, 3], 3, \<lparr>parameters = (), phase = Executed\<rparr>)"
proof -
  let ?zipped = "[0, 0, 0, 0, 0, 0, 0, 0, 1, 2, 3] :: buffer"
  have z: "bytes_of ?zipped = 11"
    by (simp add: bytes_of_def)
  have r: "replicate 8 (0 :: byte) = [0, 0, 0, 0, 0, 0, 0, 0]"
    by (simp add: numeral_eq_Suc)
  have c: "Compressor_compress_async sample_h header_layer
             \<lparr>parameters = (), phase = Configured 3 64 11\<rparr> [1, 2, 3] 64 100 0
           = Some (Inr ?zipped, 11, \<lparr>parameters = (), phase = Executed\<rparr>)"
    by (simp add: Compressor_compress_async_def header_layer_def sample_h_def
        throwExceptionIfError_def r z)
  have d: "Decompressor_decompress_async sample_h header_layer
             \<lparr>parameters = (), phase = Configured 11 64 3\<rparr> ?zipped 64 3 0
           = Some (Inr [1, 2, 3], 3, \<lparr>parameters = (), phase = Executed\<rparr>)"
    by (simp add: Decompressor_decompress_async_def header_layer_def sample_h_def
        throwExceptionIfError_def z)
  from out_bytes_in_out [of sample_h header_layer
      "\<lparr>parameters = (), phase = Configured 3 64 11\<rparr>" "[1, 2, 3]" 64 100 0 ?zipped 11
      "\<lparr>parameters = (), phase = Executed\<rparr>"
      "\<lparr>parameters = (), phase = Configured 11 64 3\<rparr>" ?zipped 64 3 0 "Inr [1, 2, 3]" 3
      "\<lparr>parameters = (), phase = Executed\<rparr>"] c d z
  show ?thesis
    by simp
qed

end
